theory Spec2Isabelle
  imports Complex_Main "HOL-Library.AList"
begin

section \<open>Values and errors of the Python program\<close>

text \<open>
  The statistics engine (\<^verbatim>\<open>utils/statistics.py\<close>) computes on Python integers and
  floats. Integers are modelled as \<^typ>\<open>int\<close>. Floats are modelled as exact reals: every
  theorem below is a statement about the formulas of the code in exact arithmetic, not
  about IEEE-754 rounding. The few places where the code produces or consumes
  \<^verbatim>\<open>float('inf')\<close> or a NaN keep them as explicit values of \<open>pyfloat\<close>.
\<close>

datatype error =
    ValueError string
  | ZeroDivisionError
  | UnboundLocalError string

datatype pyfloat = Fin real | PInf | NInf | NaN

text \<open>\<^verbatim>\<open>x > 0\<close> on a float: false for NaN.\<close>

fun pf_pos :: "pyfloat \<Rightarrow> bool" where
  "pf_pos (Fin x) = (0 < x)"
| "pf_pos PInf = True"
| "pf_pos NInf = False"
| "pf_pos NaN = False"

text \<open>\<^verbatim>\<open>x < c\<close> for a finite \<open>c\<close>: false for NaN.\<close>

fun pf_less :: "pyfloat \<Rightarrow> real \<Rightarrow> bool" where
  "pf_less (Fin x) c = (x < c)"
| "pf_less PInf c = False"
| "pf_less NInf c = True"
| "pf_less NaN c = False"

text \<open>\<^verbatim>\<open>x + d\<close> and \<^verbatim>\<open>x - d\<close> for a finite \<open>d\<close>.\<close>

fun pf_add :: "pyfloat \<Rightarrow> real \<Rightarrow> pyfloat" where
  "pf_add (Fin x) d = Fin (x + d)"
| "pf_add PInf d = PInf"
| "pf_add NInf d = NInf"
| "pf_add NaN d = NaN"

definition pf_sub :: "pyfloat \<Rightarrow> real \<Rightarrow> pyfloat" where
  "pf_sub x d = pf_add x (- d)"

text \<open>
  \<^verbatim>\<open>a / b\<close> for a divisor that the caller has tested with \<^verbatim>\<open>b > 0\<close>: the only use
  is the diagnostic odds ratio. A finite value over infinity is zero, infinity over
  infinity is NaN.
\<close>

fun pf_div_pos :: "pyfloat \<Rightarrow> pyfloat \<Rightarrow> pyfloat" where
  "pf_div_pos (Fin a) (Fin b) = Fin (a / b)"
| "pf_div_pos (Fin a) PInf = Fin 0"
| "pf_div_pos PInf (Fin b) = PInf"
| "pf_div_pos NInf (Fin b) = NInf"
| "pf_div_pos PInf PInf = NaN"
| "pf_div_pos NInf PInf = NaN"
| "pf_div_pos a b = NaN"

text \<open>
  An exception leaves the function at once: \<open>bind_r m f\<close> runs \<open>f\<close> on the value
  of \<open>m\<close>, or passes on the error of \<open>m\<close>.
\<close>

definition bind_r :: "error + 'a \<Rightarrow> ('a \<Rightarrow> error + 'b) \<Rightarrow> error + 'b" where
  "bind_r m f = (case m of Inl e \<Rightarrow> Inl e | Inr v \<Rightarrow> f v)"

text \<open>\<^verbatim>\<open>math.sqrt\<close> raises \<^verbatim>\<open>ValueError("math domain error")\<close> below zero.\<close>

definition py_sqrt :: "real \<Rightarrow> error + real" where
  "py_sqrt x = (if x < 0 then Inl (ValueError ''math domain error'') else Inr (sqrt x))"

text \<open>\<^verbatim>\<open>int(x)\<close> on a float truncates towards zero.\<close>

definition py_int :: "real \<Rightarrow> int" where
  "py_int x = (if 0 \<le> x then \<lfloor>x\<rfloor> else \<lceil>x\<rceil>)"

section \<open>Confusion-matrix statistics: \<^verbatim>\<open>calculate_diagnostic_stats\<close>\<close>

record metric =
  m_value :: real
  m_percentage :: real
  m_ci_lower :: real
  m_ci_upper :: real

record prevalence_entry =
  prev_value :: real
  prev_percentage :: real

record likelihood_entry =
  positive :: pyfloat
  negative :: pyfloat

record kappa_entry =
  k_value :: real
  k_ci_lower :: real
  k_ci_upper :: real
  k_interpretation :: string

record diagnostic_stats =
  sensitivity :: metric
  specificity :: metric
  ppv :: metric
  npv :: metric
  accuracy :: metric
  prevalence :: prevalence_entry
  f1_score :: real
  mcc :: real
  likelihood_ratios :: likelihood_entry
  diagnostic_odds_ratio :: pyfloat
  cohens_kappa :: kappa_entry
  sample_size :: int
  confidence_level :: real

text \<open>
  \<^verbatim>\<open>scipy.stats.norm.ppf\<close>, the inverse normal CDF, is a library function: it is the
  parameter \<open>ppf\<close> of every function that calls it. Its values are finite reals here,
  as they are for confidence levels strictly between \<open>-1\<close> and \<open>1\<close>; a quantile is
  non-negative exactly when the confidence level is.
\<close>

type_synonym quantile = "real \<Rightarrow> real"

text \<open>
  The nested function \<^verbatim>\<open>wilson_ci(x, n, conf_level)\<close>. With a negative \<open>n\<close> the divisor
  \<^verbatim>\<open>1 + z*z/n\<close> can vanish and the square root can leave its domain; both are branches
  here.
\<close>

definition wilson_ci :: "quantile \<Rightarrow> real \<Rightarrow> int \<Rightarrow> int \<Rightarrow> error + (real \<times> real)" where
  "wilson_ci ppf conf_level x n =
    (if n = 0 then Inr (0, 0)
     else
       let z = ppf ((1 + conf_level) / 2);
           p = real_of_int x / real_of_int n
       in if 1 + z * z / real_of_int n = 0 then Inl ZeroDivisionError
          else
            let center = (p + z * z / (2 * real_of_int n)) / (1 + z * z / real_of_int n)
            in bind_r (py_sqrt ((p * (1 - p) + z * z / (4 * real_of_int n)) / real_of_int n))
                 (\<lambda>s. let margin = z * s / (1 + z * z / real_of_int n)
                      in Inr (max 0 (center - margin), min 1 (center + margin))))"

text \<open>The Altman scale, as the inline \<^verbatim>\<open>if\<close>/\<^verbatim>\<open>elif\<close> chain writes it.\<close>

definition altman_scale :: "real \<Rightarrow> string" where
  "altman_scale k =
    (if k < 0.20 then ''Poor agreement''
     else if k < 0.40 then ''Fair agreement''
     else if k < 0.60 then ''Moderate agreement''
     else if k < 0.80 then ''Good agreement''
     else ''Very good agreement'')"

text \<open>
  The block that computes the single-matrix kappa proxy (lines 88 to 121 of
  \<^verbatim>\<open>statistics.py\<close>): value, interval and interpretation, with their initial values
  when a guard is false.
\<close>

definition kappa_proxy :: "quantile \<Rightarrow> int \<Rightarrow> int \<Rightarrow> int \<Rightarrow> int \<Rightarrow> real \<Rightarrow> error + kappa_entry" where
  "kappa_proxy ppf tp fp tn fn confidence =
    (let total_samples = tp + fp + tn + fn;
         initial = \<lparr>k_value = 0, k_ci_lower = 0, k_ci_upper = 0,
                    k_interpretation = ''Not calculated''\<rparr>
     in if total_samples > 0 then
          let observed_agreement = real_of_int (tp + tn) / real_of_int total_samples;
              expected_agreement =
                real_of_int ((tp + fn) * (tp + fp) + (tn + fp) * (tn + fn))
                  / real_of_int (total_samples * total_samples)
          in if expected_agreement < 1 then
               let kappa_value = (observed_agreement - expected_agreement) / (1 - expected_agreement)
               in bind_r (py_sqrt (expected_agreement
                                   / (real_of_int total_samples * (1 - expected_agreement)\<^sup>2)))
                    (\<lambda>se_kappa.
                      let z_critical = ppf ((1 + confidence) / 2)
                      in Inr \<lparr>k_value = kappa_value,
                              k_ci_lower = max (- 1) (kappa_value - z_critical * se_kappa),
                              k_ci_upper = min 1 (kappa_value + z_critical * se_kappa),
                              k_interpretation = altman_scale kappa_value\<rparr>)
             else Inr initial
        else Inr initial)"

definition mk_metric :: "real \<Rightarrow> real \<times> real \<Rightarrow> metric" where
  "mk_metric v ci = \<lparr>m_value = v, m_percentage = v * 100, m_ci_lower = fst ci, m_ci_upper = snd ci\<rparr>"

definition calculate_diagnostic_stats ::
    "quantile \<Rightarrow> int \<Rightarrow> int \<Rightarrow> int \<Rightarrow> int \<Rightarrow> real \<Rightarrow> error + diagnostic_stats" where
  "calculate_diagnostic_stats ppf tp fp tn fn confidence =
    (if tp + fp + tn + fn = 0
     then Inl (ValueError ''All confusion matrix values cannot be zero'')
     else
       let total = tp + fp + tn + fn;
           sensitivity_v = (if tp + fn > 0 then real_of_int tp / real_of_int (tp + fn) else 0);
           specificity_v = (if tn + fp > 0 then real_of_int tn / real_of_int (tn + fp) else 0);
           ppv_v = (if tp + fp > 0 then real_of_int tp / real_of_int (tp + fp) else 0);
           npv_v = (if tn + fn > 0 then real_of_int tn / real_of_int (tn + fn) else 0);
           accuracy_v = real_of_int (tp + tn) / real_of_int total;
           prevalence_v = real_of_int (tp + fn) / real_of_int total;
           fpr = (if fp + tn > 0 then real_of_int fp / real_of_int (fp + tn) else 0);
           fnr = (if fn + tp > 0 then real_of_int fn / real_of_int (fn + tp) else 0);
           lr_positive = (if fpr > 0 then Fin (sensitivity_v / fpr) else PInf);
           lr_negative = (if specificity_v > 0 then Fin (fnr / specificity_v) else PInf);
           dor = (if pf_pos lr_negative then pf_div_pos lr_positive lr_negative else PInf);
           f1 = (if ppv_v + sensitivity_v > 0
                 then 2 * (ppv_v * sensitivity_v) / (ppv_v + sensitivity_v) else 0);
           mcc_numerator = tp * tn - fp * fn
       in bind_r (py_sqrt (real_of_int ((tp + fp) * (tp + fn) * (tn + fp) * (tn + fn))))
            (\<lambda>mcc_denominator.
       let mcc_v = (if mcc_denominator > 0 then real_of_int mcc_numerator / mcc_denominator else 0)
       in bind_r (wilson_ci ppf confidence tp (tp + fn)) (\<lambda>sensitivity_ci.
          bind_r (wilson_ci ppf confidence tn (tn + fp)) (\<lambda>specificity_ci.
          bind_r (wilson_ci ppf confidence tp (tp + fp)) (\<lambda>ppv_ci.
          bind_r (wilson_ci ppf confidence tn (tn + fn)) (\<lambda>npv_ci.
          bind_r (wilson_ci ppf confidence (tp + tn) total) (\<lambda>accuracy_ci.
          bind_r (kappa_proxy ppf tp fp tn fn confidence) (\<lambda>kappa.
            Inr \<lparr>sensitivity = mk_metric sensitivity_v sensitivity_ci,
                 specificity = mk_metric specificity_v specificity_ci,
                 ppv = mk_metric ppv_v ppv_ci,
                 npv = mk_metric npv_v npv_ci,
                 accuracy = mk_metric accuracy_v accuracy_ci,
                 prevalence = \<lparr>prev_value = prevalence_v, prev_percentage = prevalence_v * 100\<rparr>,
                 f1_score = f1,
                 mcc = mcc_v,
                 likelihood_ratios = \<lparr>positive = lr_positive, negative = lr_negative\<rparr>,
                 diagnostic_odds_ratio = dor,
                 cohens_kappa = kappa,
                 sample_size = total,
                 confidence_level = confidence\<rparr>))))))))"

section \<open>Agreement estimator: \<^verbatim>\<open>calculate_cohens_kappa\<close>\<close>

text \<open>
  A \<open>k \<times> k\<close> numpy array is a list of rows. \<open>matrix_of k f\<close> is the array whose
  entry \<open>[i, j]\<close> is \<open>f i j\<close>; \<open>trace_of\<close>, \<open>row_sums\<close> (\<^verbatim>\<open>axis=1\<close>), \<open>col_sums\<close>
  (\<^verbatim>\<open>axis=0\<close>) and \<open>total_of\<close> are \<^verbatim>\<open>np.trace\<close> and \<^verbatim>\<open>np.sum\<close>.
\<close>

definition matrix_of :: "nat \<Rightarrow> (nat \<Rightarrow> nat \<Rightarrow> real) \<Rightarrow> real list list" where
  "matrix_of k f = map (\<lambda>i. map (\<lambda>j. f i j) [0..<k]) [0..<k]"

definition trace_of :: "real list list \<Rightarrow> real" where
  "trace_of m = sum_list (map (\<lambda>i. m ! i ! i) [0..<length m])"

definition row_sums :: "real list list \<Rightarrow> real list" where
  "row_sums m = map sum_list m"

definition col_sums :: "real list list \<Rightarrow> real list" where
  "col_sums m = map (\<lambda>j. sum_list (map (\<lambda>row. row ! j) m)) [0..<length m]"

definition total_of :: "real list list \<Rightarrow> real" where
  "total_of m = sum_list (map sum_list m)"

text \<open>\<^verbatim>\<open>np.unique(np.concatenate([rater1, rater2]))\<close>: the sorted distinct labels.\<close>

definition categories_of :: "'a::linorder list \<Rightarrow> 'a list \<Rightarrow> 'a list" where
  "categories_of rater1 rater2 = sort (remdups (rater1 @ rater2))"

text \<open>\<^verbatim>\<open>np.sum((rater1 == cat1) & (rater2 == cat2))\<close>.\<close>

definition cell :: "'a list \<Rightarrow> 'a list \<Rightarrow> 'a \<Rightarrow> 'a \<Rightarrow> nat" where
  "cell rater1 rater2 cat1 cat2 =
     length (filter (\<lambda>(a, b). a = cat1 \<and> b = cat2) (zip rater1 rater2))"

definition contingency_of :: "'a list \<Rightarrow> 'a list \<Rightarrow> 'a list \<Rightarrow> real list list" where
  "contingency_of categories rater1 rater2 =
     matrix_of (length categories)
       (\<lambda>i j. real (cell rater1 rater2 (categories ! i) (categories ! j)))"

text \<open>
  Division of two numpy floats does not raise: a zero divisor gives NaN for a zero
  dividend and an infinity otherwise (with a warning).
\<close>

definition np_div :: "real \<Rightarrow> real \<Rightarrow> pyfloat" where
  "np_div a b =
     (if b = 0 then (if a = 0 then NaN else if 0 < a then PInf else NInf) else Fin (a / b))"

fun one_minus :: "pyfloat \<Rightarrow> pyfloat" where
  "one_minus (Fin x) = Fin (1 - x)"
| "one_minus PInf = NInf"
| "one_minus NInf = PInf"
| "one_minus NaN = NaN"

text \<open>
  \<^verbatim>\<open>sklearn.metrics.cohen_kappa_score\<close> is a library function. It is modelled by the
  library's own unweighted algorithm: the confusion matrix over the sorted labels, the
  expected matrix \<^verbatim>\<open>outer(sum0, sum1) / sum(sum0)\<close>, the weights \<open>1\<close> off the diagonal
  and \<open>0\<close> on it, and \<^verbatim>\<open>1 - sum(w * confusion) / sum(w * expected)\<close>. This is the
  statistic \<open>(p_obs - p_exp) / (1 - p_exp)\<close> of the specification.
\<close>

definition cohen_kappa_score :: "'a::linorder list \<Rightarrow> 'a list \<Rightarrow> pyfloat" where
  "cohen_kappa_score y1 y2 =
    (let labels = categories_of y1 y2;
         confusion = contingency_of labels y1 y2;
         n_classes = length labels;
         sum0 = col_sums confusion;
         sum1 = row_sums confusion;
         expected = matrix_of n_classes (\<lambda>i j. sum0 ! i * sum1 ! j / sum_list sum0);
         w_mat = matrix_of n_classes (\<lambda>i j. if i = j then 0 else 1);
         k = np_div
               (total_of (matrix_of n_classes (\<lambda>i j. w_mat ! i ! j * confusion ! i ! j)))
               (total_of (matrix_of n_classes (\<lambda>i j. w_mat ! i ! j * expected ! i ! j)))
     in one_minus k)"

record interval_entry =
  lower :: pyfloat
  upper :: pyfloat
  ci_confidence_level :: real

record kappa_result =
  kappa :: pyfloat
  confidence_interval :: interval_entry
  standard_error :: real
  kr_interpretation :: string
  kr_sample_size :: nat
  observed_agreement :: real
  expected_agreement :: real

text \<open>\<^verbatim>\<open>min(1.0, x)\<close> returns \<open>x\<close> only when \<^verbatim>\<open>x < 1.0\<close>, so a NaN becomes \<open>1.0\<close>.\<close>

definition py_min :: "real \<Rightarrow> pyfloat \<Rightarrow> pyfloat" where
  "py_min c x = (if pf_less x c then x else Fin c)"

text \<open>The nested \<^verbatim>\<open>interpret_kappa\<close>; every comparison with a NaN is false.\<close>

definition interpret_kappa :: "pyfloat \<Rightarrow> string" where
  "interpret_kappa k =
    (if pf_less k 0.20 then ''Poor agreement''
     else if pf_less k 0.40 then ''Fair agreement''
     else if pf_less k 0.60 then ''Moderate agreement''
     else if pf_less k 0.80 then ''Good agreement''
     else ''Very good agreement'')"

definition calculate_cohens_kappa ::
    "quantile \<Rightarrow> 'a::linorder list \<Rightarrow> 'a list \<Rightarrow> real \<Rightarrow> error + kappa_result" where
  "calculate_cohens_kappa ppf rater1 rater2 confidence =
    (if length rater1 \<noteq> length rater2
     then Inl (ValueError ''Rater arrays must have the same length'')
     else if length rater1 = 0
     then Inl (ValueError ''Rater arrays cannot be empty'')
     else
       let kappa_v = cohen_kappa_score rater1 rater2;
           n = length rater1;
           categories = categories_of rater1 rater2;
           contingency = contingency_of categories rater1 rater2;
           p_obs = trace_of contingency / real n;
           row_marginals = map (\<lambda>s. s / real n) (row_sums contingency);
           col_marginals = map (\<lambda>s. s / real n) (col_sums contingency);
           p_exp = sum_list (map2 (*) row_marginals col_marginals)
       in bind_r (if p_exp = 1 then Inr 0
                  else py_sqrt (p_exp / (real n * (1 - p_exp)\<^sup>2)))
            (\<lambda>se_kappa.
               let z_critical = ppf ((1 + confidence) / 2);
                   ci_lower = pf_sub kappa_v (z_critical * se_kappa);
                   ci_upper = pf_add kappa_v (z_critical * se_kappa);
                   ci_upper = py_min 1 ci_upper
               in Inr \<lparr>kappa = kappa_v,
                       confidence_interval =
                         \<lparr>lower = ci_lower, upper = ci_upper, ci_confidence_level = confidence\<rparr>,
                       standard_error = se_kappa,
                       kr_interpretation = interpret_kappa kappa_v,
                       kr_sample_size = n,
                       observed_agreement = p_obs,
                       expected_agreement = p_exp\<rparr>))"

section \<open>Multiple-comparisons corrector\<close>

record correction_result =
  original_p_values :: "real list"
  corrected_p_values :: "real list"
  corr_method :: string
  significant_at_05 :: "bool list"
  significant_at_01 :: "bool list"

text \<open>
  \<^verbatim>\<open>np.argsort\<close>: the indices in ascending order of their values. Equal p-values get
  equal corrected values under both step methods, so the order among ties does not show
  in the result.
\<close>

definition argsort :: "real list \<Rightarrow> nat list" where
  "argsort ps = map snd (sort_key fst (zip ps [0..<length ps]))"

text \<open>The forward pass \<^verbatim>\<open>s[i] = max(s[i], s[i-1])\<close> for \<open>i = 1 ..\<close>.\<close>

fun forward_max :: "real \<Rightarrow> real list \<Rightarrow> real list" where
  "forward_max prev [] = []"
| "forward_max prev (x # xs) = max x prev # forward_max (max x prev) xs"

definition holm_monotone :: "real list \<Rightarrow> real list" where
  "holm_monotone s = (case s of [] \<Rightarrow> [] | x # xs \<Rightarrow> x # forward_max x xs)"

text \<open>The backward pass \<^verbatim>\<open>s[i] = min(s[i], s[i+1])\<close> for \<open>i = len - 2 .. 0\<close>.\<close>

fun backward_min :: "real list \<Rightarrow> real list" where
  "backward_min [] = []"
| "backward_min [x] = [x]"
| "backward_min (x # y # ys) = (let r = backward_min (y # ys) in min x (hd r) # r)"

text \<open>\<^verbatim>\<open>corrected[sorted_indices] = sorted_corrected\<close> on an array of zeros.\<close>

definition scatter :: "nat \<Rightarrow> nat list \<Rightarrow> real list \<Rightarrow> real list" where
  "scatter n idxs vals = fold (\<lambda>(idx, v) c. c[idx := v]) (zip idxs vals) (replicate n 0)"

definition holm_corrected :: "real list \<Rightarrow> real list" where
  "holm_corrected p_array =
    (let n = length p_array;
         sorted_indices = argsort p_array;
         sorted_corrected =
           map (\<lambda>(i, idx). min 1 (p_array ! idx * real (n - i)))
             (zip [0..<n] sorted_indices)
     in scatter n sorted_indices (holm_monotone sorted_corrected))"

definition fdr_bh_corrected :: "real list \<Rightarrow> real list" where
  "fdr_bh_corrected p_array =
    (let n = length p_array;
         sorted_indices = argsort p_array;
         sorted_corrected =
           map (\<lambda>(i, idx). min 1 (p_array ! idx * real n / real (i + 1)))
             (zip [0..<n] sorted_indices)
     in scatter n sorted_indices (backward_min sorted_corrected))"

text \<open>
  The \<^verbatim>\<open>if\<close>/\<^verbatim>\<open>elif\<close> chain has no \<^verbatim>\<open>else\<close>: for any other method the local
  \<^verbatim>\<open>corrected\<close> is never assigned, and the \<^verbatim>\<open>return\<close> statement fails on reading it.
\<close>

definition calculate_multiple_comparisons_correction ::
    "real list \<Rightarrow> string \<Rightarrow> error + correction_result" where
  "calculate_multiple_comparisons_correction p_values method =
    (let p_array = p_values;
         n = length p_array;
         corrected =
           (if method = ''bonferroni'' then Some (map (\<lambda>c. min c 1) (map (\<lambda>p. p * real n) p_array))
            else if method = ''holm'' then Some (holm_corrected p_array)
            else if method = ''fdr_bh'' then Some (fdr_bh_corrected p_array)
            else None)
     in case corrected of
          None \<Rightarrow> Inl (UnboundLocalError ''corrected'')
        | Some c \<Rightarrow>
            Inr \<lparr>original_p_values = p_values,
                 corrected_p_values = c,
                 corr_method = method,
                 significant_at_05 = map (\<lambda>x. x < 0.05) c,
                 significant_at_01 = map (\<lambda>x. x < 0.01) c\<rparr>)"

section \<open>Multi-technique comparator: the route \<^verbatim>\<open>compare_techniques\<close>\<close>

text \<open>
  The columns of the \<^verbatim>\<open>Experiment\<close> model that the comparison reads. The name is
  not a unique column.
\<close>

record experiment_row =
  name :: string
  true_positive :: int
  false_positive :: int
  true_negative :: int
  false_negative :: int

record pairwise_entry =
  pe_kappa :: pyfloat
  pe_confidence_interval :: interval_entry
  pe_standard_error :: real
  pe_interpretation :: string

text \<open>A Python dictionary: insertion-ordered, a repeated key overwrites its value.\<close>

type_synonym kappa_table = "(string \<times> pairwise_entry) list"

text \<open>\<^verbatim>\<open>range(int(x))\<close> runs \<open>nat (py_int x)\<close> times.\<close>

definition stratum :: "int \<Rightarrow> int \<Rightarrow> int \<Rightarrow> nat" where
  "stratum c total1 min_total =
     nat (py_int (real_of_int c / real_of_int total1 * real_of_int min_total))"

text \<open>
  The four loops that fill \<^verbatim>\<open>rater1\<close> and \<^verbatim>\<open>rater2\<close>. The first division
  \<^verbatim>\<open>exp1.true_positive / total1\<close> raises when \<^verbatim>\<open>total1\<close> is zero.
\<close>

definition proportional_arrays :: "experiment_row \<Rightarrow> experiment_row \<Rightarrow> error + (int list \<times> int list)" where
  "proportional_arrays exp1 exp2 =
    (let total1 = true_positive exp1 + false_positive exp1 + true_negative exp1 + false_negative exp1;
         total2 = true_positive exp2 + false_positive exp2 + true_negative exp2 + false_negative exp2;
         min_total = min total1 total2
     in if total1 = 0 then Inl ZeroDivisionError
        else
          let a = stratum (true_positive exp1) total1 min_total;
              b = stratum (false_positive exp1) total1 min_total;
              c = stratum (false_negative exp1) total1 min_total;
              d = stratum (true_negative exp1) total1 min_total
          in Inr (replicate a 1 @ replicate b 1 @ replicate c 0 @ replicate d 0,
                  replicate a 1 @ replicate b 0 @ replicate c 1 @ replicate d 0))"

definition comparison_key :: "experiment_row \<Rightarrow> experiment_row \<Rightarrow> string" where
  "comparison_key exp1 exp2 = name exp1 @ '' vs '' @ name exp2"

text \<open>One pass of the inner loop body: the entry of the pair, or the exception.\<close>

definition pair_entry :: "quantile \<Rightarrow> experiment_row \<Rightarrow> experiment_row \<Rightarrow> error + pairwise_entry" where
  "pair_entry ppf exp1 exp2 =
     bind_r (proportional_arrays exp1 exp2) (\<lambda>(rater1, rater2).
     bind_r (calculate_cohens_kappa ppf rater1 rater2 0.95) (\<lambda>kappa_result.
       Inr \<lparr>pe_kappa = kappa kappa_result,
            pe_confidence_interval = confidence_interval kappa_result,
            pe_standard_error = standard_error kappa_result,
            pe_interpretation = kr_interpretation kappa_result\<rparr>))"

text \<open>The inner loop over \<^verbatim>\<open>experiments[i+1:]\<close> and the outer loop over the list.\<close>

fun inner_loop :: "quantile \<Rightarrow> experiment_row \<Rightarrow> experiment_row list \<Rightarrow> kappa_table \<Rightarrow> error + kappa_table" where
  "inner_loop ppf exp1 [] kappa_results = Inr kappa_results"
| "inner_loop ppf exp1 (exp2 # rest) kappa_results =
     bind_r (pair_entry ppf exp1 exp2) (\<lambda>entry.
       inner_loop ppf exp1 rest (AList.update (comparison_key exp1 exp2) entry kappa_results))"

fun outer_loop :: "quantile \<Rightarrow> experiment_row list \<Rightarrow> kappa_table \<Rightarrow> error + kappa_table" where
  "outer_loop ppf [] kappa_results = Inr kappa_results"
| "outer_loop ppf (exp1 # rest) kappa_results =
     bind_r (inner_loop ppf exp1 rest kappa_results) (\<lambda>kappa_results'.
       outer_loop ppf rest kappa_results')"

definition pairwise_kappa :: "quantile \<Rightarrow> experiment_row list \<Rightarrow> error + kappa_table" where
  "pairwise_kappa ppf experiments = outer_loop ppf experiments []"

text \<open>
  The route handler, from the rows that the query returned (the request, its first
  check on the number of submitted ids, and the database are outside the model): with
  fewer than two rows it flashes a message and redirects; any exception of the body is
  caught, logged and answered by a flash and a redirect; otherwise the table is stored
  and rendered.
\<close>

datatype response = Redirect string | Rendered kappa_table

definition compare_techniques :: "quantile \<Rightarrow> experiment_row list \<Rightarrow> response" where
  "compare_techniques ppf experiments =
    (if length experiments < 2 then Redirect ''Selected experiments not found''
     else case pairwise_kappa ppf experiments of
            Inl e \<Rightarrow> Redirect ''Error performing technique comparison''
          | Inr kappa_results \<Rightarrow> Rendered kappa_results)"

section \<open>Auxiliary definitions\<close>

text \<open>
  Names for two terms of the agreement computation, used to state facts about it: the
  entry \<open>[i, j]\<close> of the contingency table, and the weight matrix of the unweighted
  kappa.
\<close>

definition entry :: "'a::linorder list \<Rightarrow> 'a list \<Rightarrow> nat \<Rightarrow> nat \<Rightarrow> real" where
  "entry r1 r2 i j =
     real (cell r1 r2 (categories_of r1 r2 ! i) (categories_of r1 r2 ! j))"

definition weight :: "nat \<Rightarrow> nat \<Rightarrow> real" where
  "weight i j = (if i = j then 0 else 1)"

text \<open>What the rendered page shows of a response: the keys of the kappa table.\<close>

definition rendered_keys :: "response \<Rightarrow> string list option" where
  "rendered_keys resp =
     (case resp of Rendered kappa_results \<Rightarrow> Some (map fst kappa_results) | Redirect msg \<Rightarrow> None)"

section \<open>Concrete experiments\<close>

text \<open>
  Two stored experiments with positive totals: all four counts one, and a single true
  positive.
\<close>

definition exp_a :: experiment_row where
  "exp_a = \<lparr>name = ''A'', true_positive = 1, false_positive = 1, true_negative = 1,
            false_negative = 1\<rparr>"

definition exp_b :: experiment_row where
  "exp_b = \<lparr>name = ''B'', true_positive = 1, false_positive = 0, true_negative = 0,
            false_negative = 0\<rparr>"

text \<open>
  Further stored experiments: \<open>C\<close> and \<open>D\<close> with their own names, and three
  experiments that share the name \<open>A\<close>.
\<close>

definition exp_c :: experiment_row where
  "exp_c = \<lparr>name = ''C'', true_positive = 2, false_positive = 0, true_negative = 2,
            false_negative = 0\<rparr>"

definition exp_d :: experiment_row where
  "exp_d = \<lparr>name = ''D'', true_positive = 3, false_positive = 0, true_negative = 3,
            false_negative = 0\<rparr>"

definition same_1 :: experiment_row where
  "same_1 = \<lparr>name = ''A'', true_positive = 1, false_positive = 0, true_negative = 1,
             false_negative = 0\<rparr>"

definition same_2 :: experiment_row where
  "same_2 = \<lparr>name = ''A'', true_positive = 2, false_positive = 0, true_negative = 2,
             false_negative = 0\<rparr>"

definition same_3 :: experiment_row where
  "same_3 = \<lparr>name = ''A'', true_positive = 3, false_positive = 0, true_negative = 3,
             false_negative = 0\<rparr>"

text \<open>
  A stand-in for the quantile function in closed statements: it returns \<open>1.96\<close>, the
  critical value of the default confidence level \<open>0.95\<close>, rounded to two places.
\<close>

definition flat_quantile :: quantile where
  "flat_quantile q = 196 / 100"

section \<open>Auxiliary facts\<close>

subsection \<open>Errors and square roots\<close>

lemma bind_r_Inr [simp]: "bind_r (Inr v) f = f v"
  by (simp add: bind_r_def)

lemma bind_r_Inl [simp]: "bind_r (Inl e) f = Inl e"
  by (simp add: bind_r_def)

lemma py_sqrt_nonneg [simp]: "0 \<le> x \<Longrightarrow> py_sqrt x = Inr (sqrt x)"
  by (simp add: py_sqrt_def)

lemma wilson_ci_zero [simp]: "wilson_ci ppf c x 0 = Inr (0, 0)"
  by (simp add: wilson_ci_def)

lemma wilson_radicand_nonneg:
  fixes z :: real
  assumes "0 \<le> x" "x \<le> n" "0 < n"
  shows "0 \<le> (real_of_int x / real_of_int n * (1 - real_of_int x / real_of_int n)
               + z * z / (4 * real_of_int n)) / real_of_int n"
proof -
  have p0: "0 \<le> real_of_int x / real_of_int n" using assms by simp
  have p1: "real_of_int x / real_of_int n \<le> 1" using assms by simp
  have "0 \<le> real_of_int x / real_of_int n * (1 - real_of_int x / real_of_int n)"
    using p0 p1 by (intro mult_nonneg_nonneg) simp_all
  moreover have "0 \<le> z * z / (4 * real_of_int n)" using assms by simp
  ultimately have "0 \<le> real_of_int x / real_of_int n * (1 - real_of_int x / real_of_int n)
               + z * z / (4 * real_of_int n)" by linarith
  then show ?thesis using assms by (intro divide_nonneg_nonneg) simp_all
qed

lemma wilson_divisor_pos:
  fixes z :: real
  assumes "0 < n"
  shows "0 < 1 + z * z / real_of_int n"
proof -
  have "0 \<le> z * z / real_of_int n" using assms by simp
  then show ?thesis by linarith
qed

lemma wilson_ci_eq:
  assumes "0 \<le> x" "x \<le> n" "0 < n"
  shows "wilson_ci ppf c x n =
    (let z = ppf ((1 + c) / 2);
         p = real_of_int x / real_of_int n;
         d = 1 + z * z / real_of_int n;
         s = sqrt ((p * (1 - p) + z * z / (4 * real_of_int n)) / real_of_int n)
     in Inr (max 0 ((p + z * z / (2 * real_of_int n)) / d - z * s / d),
             min 1 ((p + z * z / (2 * real_of_int n)) / d + z * s / d)))"
proof -
  have d: "1 + ppf ((1 + c) / 2) * ppf ((1 + c) / 2) / real_of_int n \<noteq> 0"
    using wilson_divisor_pos [OF assms(3), of "ppf ((1 + c) / 2)"] by simp
  have r: "0 \<le> (real_of_int x / real_of_int n * (1 - real_of_int x / real_of_int n)
               + ppf ((1 + c) / 2) * ppf ((1 + c) / 2) / (4 * real_of_int n)) / real_of_int n"
    by (rule wilson_radicand_nonneg [OF assms])
  show ?thesis
    using assms(3) d r by (simp add: wilson_ci_def Let_def)
qed

lemma wilson_ci_returns:
  assumes "0 \<le> x" "x \<le> n"
  shows "\<exists>ci. wilson_ci ppf c x n = Inr ci"
proof (cases "n = 0")
  case True
  then show ?thesis by simp
next
  case False
  with assms have "0 < n" by simp
  from wilson_ci_eq [OF assms this] show ?thesis by (simp add: Let_def)
qed

lemma bind_r_eq_Inr: "bind_r m f = Inr r \<longleftrightarrow> (\<exists>v. m = Inr v \<and> f v = Inr r)"
  by (cases m) simp_all

lemma py_sqrt_eq_Inr: "py_sqrt x = Inr s \<longleftrightarrow> 0 \<le> x \<and> s = sqrt x"
  by (auto simp: py_sqrt_def)

lemma kappa_proxy_clipped:
  assumes "kappa_proxy ppf tp fp tn fn c = Inr k"
  shows "- 1 \<le> k_ci_lower k \<and> k_ci_upper k \<le> 1"
proof (cases "0 < tp + fp + tn + fn \<and>
    real_of_int ((tp + fn) * (tp + fp) + (tn + fp) * (tn + fn))
      / real_of_int ((tp + fp + tn + fn) * (tp + fp + tn + fn)) < 1")
  case True
  with assms show ?thesis
    by (auto simp: kappa_proxy_def Let_def bind_r_eq_Inr simp del: of_int_add of_int_mult)
next
  case False
  with assms have "k = \<lparr>k_value = 0, k_ci_lower = 0, k_ci_upper = 0,
                    k_interpretation = ''Not calculated''\<rparr>"
    by (auto simp: kappa_proxy_def Let_def simp del: of_int_add of_int_mult split: if_splits)
  then show ?thesis by simp
qed

lemma expected_agreement_nonneg:
  fixes tp fp tn fn :: int
  assumes "0 \<le> tp" "0 \<le> fp" "0 \<le> tn" "0 \<le> fn"
  shows "0 \<le> real_of_int ((tp + fn) * (tp + fp) + (tn + fp) * (tn + fn))
               / real_of_int ((tp + fp + tn + fn) * (tp + fp + tn + fn))"
proof -
  have "0 \<le> (tp + fn) * (tp + fp) + (tn + fp) * (tn + fn)"
    using assms by (intro add_nonneg_nonneg mult_nonneg_nonneg) simp_all
  then have a: "0 \<le> real_of_int ((tp + fn) * (tp + fp) + (tn + fp) * (tn + fn))"
    by (rule of_int_nonneg)
  have "0 \<le> (tp + fp + tn + fn) * (tp + fp + tn + fn)" by simp
  then have b: "0 \<le> real_of_int ((tp + fp + tn + fn) * (tp + fp + tn + fn))"
    by (rule of_int_nonneg)
  from a b show ?thesis by (rule divide_nonneg_nonneg)
qed

lemma kappa_proxy_returns:
  assumes "0 \<le> tp" "0 \<le> fp" "0 \<le> tn" "0 \<le> fn"
  shows "\<exists>k. kappa_proxy ppf tp fp tn fn c = Inr k"
proof -
  let ?e = "real_of_int ((tp + fn) * (tp + fp) + (tn + fp) * (tn + fn))
               / real_of_int ((tp + fp + tn + fn) * (tp + fp + tn + fn))"
  have e: "0 \<le> ?e" by (rule expected_agreement_nonneg [OF assms])
  have "0 \<le> ?e / (real_of_int (tp + fp + tn + fn) * (1 - ?e)\<^sup>2)"
    if "0 < tp + fp + tn + fn"
  proof -
    have "0 \<le> real_of_int (tp + fp + tn + fn)" using that by (intro of_int_nonneg) simp
    then have "0 \<le> real_of_int (tp + fp + tn + fn) * (1 - ?e)\<^sup>2"
      by (intro mult_nonneg_nonneg) simp_all
    with e show ?thesis by (rule divide_nonneg_nonneg)
  qed
  then show ?thesis
    by (simp add: kappa_proxy_def Let_def del: of_int_add of_int_mult)
qed

lemma mcc_radicand_nonneg:
  fixes tp fp tn fn :: int
  assumes "0 \<le> tp" "0 \<le> fp" "0 \<le> tn" "0 \<le> fn"
  shows "0 \<le> real_of_int ((tp + fp) * (tp + fn) * (tn + fp) * (tn + fn))"
proof -
  have "0 \<le> (tp + fp) * (tp + fn) * (tn + fp) * (tn + fn)"
    using assms by (intro mult_nonneg_nonneg) simp_all
  then show ?thesis by (rule of_int_nonneg)
qed

lemma calculate_diagnostic_stats_nonzero:
  assumes "calculate_diagnostic_stats ppf tp fp tn fn c = Inr r"
  shows "tp + fp + tn + fn \<noteq> 0"
  using assms by (cases "tp + fp + tn + fn = 0") (simp_all add: calculate_diagnostic_stats_def)

lemma calculate_diagnostic_stats_values:
  assumes "calculate_diagnostic_stats ppf tp fp tn fn c = Inr r"
  shows "m_value (sensitivity r) = (if tp + fn > 0 then real_of_int tp / real_of_int (tp + fn) else 0)"
    and "m_value (specificity r) = (if tn + fp > 0 then real_of_int tn / real_of_int (tn + fp) else 0)"
    and "m_value (ppv r) = (if tp + fp > 0 then real_of_int tp / real_of_int (tp + fp) else 0)"
    and "m_value (npv r) = (if tn + fn > 0 then real_of_int tn / real_of_int (tn + fn) else 0)"
    and "m_value (accuracy r) = real_of_int (tp + tn) / real_of_int (tp + fp + tn + fn)"
    and "prev_value (prevalence r) = real_of_int (tp + fn) / real_of_int (tp + fp + tn + fn)"
    and "mcc r = (if sqrt (real_of_int ((tp + fp) * (tp + fn) * (tn + fp) * (tn + fn))) > 0
                  then real_of_int (tp * tn - fp * fn)
                         / sqrt (real_of_int ((tp + fp) * (tp + fn) * (tn + fp) * (tn + fn)))
                  else 0)"
  using assms calculate_diagnostic_stats_nonzero [OF assms]
  by (auto simp: calculate_diagnostic_stats_def Let_def bind_r_eq_Inr mk_metric_def py_sqrt_eq_Inr
           simp del: of_int_mult of_int_add of_int_diff
           split del: if_split)

lemma calculate_diagnostic_stats_intervals:
  assumes "calculate_diagnostic_stats ppf tp fp tn fn c = Inr r"
  shows "wilson_ci ppf c tp (tp + fn) = Inr (m_ci_lower (sensitivity r), m_ci_upper (sensitivity r))"
    and "wilson_ci ppf c tn (tn + fp) = Inr (m_ci_lower (specificity r), m_ci_upper (specificity r))"
    and "wilson_ci ppf c tp (tp + fp) = Inr (m_ci_lower (ppv r), m_ci_upper (ppv r))"
    and "wilson_ci ppf c tn (tn + fn) = Inr (m_ci_lower (npv r), m_ci_upper (npv r))"
    and "wilson_ci ppf c (tp + tn) (tp + fp + tn + fn)
           = Inr (m_ci_lower (accuracy r), m_ci_upper (accuracy r))"
    and "kappa_proxy ppf tp fp tn fn c = Inr (cohens_kappa r)"
  using assms calculate_diagnostic_stats_nonzero [OF assms]
  by (auto simp: calculate_diagnostic_stats_def Let_def bind_r_eq_Inr mk_metric_def
           simp del: of_int_mult of_int_add of_int_diff
           split del: if_split)

lemma calculate_diagnostic_stats_returns:
  assumes "0 \<le> tp" "0 \<le> fp" "0 \<le> tn" "0 \<le> fn" "0 < tp + fp + tn + fn"
  shows "\<exists>r. calculate_diagnostic_stats ppf tp fp tn fn c = Inr r"
proof -
  obtain c1 where c1: "wilson_ci ppf c tp (tp + fn) = Inr c1"
    using wilson_ci_returns [of tp "tp + fn" ppf c] assms by auto
  obtain c2 where c2: "wilson_ci ppf c tn (tn + fp) = Inr c2"
    using wilson_ci_returns [of tn "tn + fp" ppf c] assms by auto
  obtain c3 where c3: "wilson_ci ppf c tp (tp + fp) = Inr c3"
    using wilson_ci_returns [of tp "tp + fp" ppf c] assms by auto
  obtain c4 where c4: "wilson_ci ppf c tn (tn + fn) = Inr c4"
    using wilson_ci_returns [of tn "tn + fn" ppf c] assms by auto
  obtain c5 where c5: "wilson_ci ppf c (tp + tn) (tp + fp + tn + fn) = Inr c5"
    using wilson_ci_returns [of "tp + tn" "tp + fp + tn + fn" ppf c] assms by auto
  obtain k where k: "kappa_proxy ppf tp fp tn fn c = Inr k"
    using kappa_proxy_returns [OF assms(1-4)] by auto
  have m: "py_sqrt (real_of_int ((tp + fp) * (tp + fn) * (tn + fp) * (tn + fn)))
           = Inr (sqrt (real_of_int ((tp + fp) * (tp + fn) * (tn + fp) * (tn + fn))))"
    using mcc_radicand_nonneg [OF assms(1-4)] by (simp only: py_sqrt_nonneg)
  have nz: "tp + fp + tn + fn \<noteq> 0" using assms(5) by simp
  show ?thesis
    unfolding calculate_diagnostic_stats_def Let_def
    by (simp only: nz if_False c1 c2 c3 c4 c5 k m bind_r_Inr) blast
qed




lemma calculate_diagnostic_stats_sample_size:
  assumes "calculate_diagnostic_stats ppf tp fp tn fn c = Inr r"
  shows "sample_size r = tp + fp + tn + fn"
  using assms calculate_diagnostic_stats_nonzero [OF assms]
  by (auto simp: calculate_diagnostic_stats_def Let_def bind_r_eq_Inr
           simp del: of_int_mult of_int_add of_int_diff
           split del: if_split)

lemma all_zero_rejected:
  assumes "tp + fp + tn + fn = 0"
  shows "calculate_diagnostic_stats ppf tp fp tn fn c
           = Inl (ValueError ''All confusion matrix values cannot be zero'')"
  using assms by (simp add: calculate_diagnostic_stats_def)

lemma calculate_cohens_kappa_empty:
  "calculate_cohens_kappa ppf [] [] c = Inl (ValueError ''Rater arrays cannot be empty'')"
  by (simp add: calculate_cohens_kappa_def)

subsection \<open>The Wilson interval in exact arithmetic\<close>

lemma wilson_margin_bound:
  fixes z p n :: real
  assumes "0 \<le> p" "p \<le> 1" "0 < n"
  shows "\<bar>z * (1 / 2 - p) / n\<bar> \<le> sqrt ((p * (1 - p) + z * z / (4 * n)) / n)"
proof -
  have q: "0 \<le> p * (1 - p)" using assms by (intro mult_nonneg_nonneg) simp_all
  have "(z * (1 / 2 - p) / n)\<^sup>2 = (z * z / (4 * n) - z * z * (p * (1 - p)) / n) / n"
    using assms(3) by (simp add: power2_eq_square field_simps)
  also have "\<dots> \<le> (p * (1 - p) + z * z / (4 * n)) / n"
  proof (rule divide_right_mono)
    have zz: "0 \<le> z * z" by simp
    have "0 \<le> z * z * (p * (1 - p))" by (rule mult_nonneg_nonneg [OF zz q])
    then have "0 \<le> z * z * (p * (1 - p)) / n"
      using assms(3) by (intro divide_nonneg_nonneg) simp_all
    then show "z * z / (4 * n) - z * z * (p * (1 - p)) / n \<le> p * (1 - p) + z * z / (4 * n)"
      using q by linarith
    show "0 \<le> n" using assms(3) by simp
  qed
  finally have "\<bar>z * (1 / 2 - p) / n\<bar>\<^sup>2 \<le> (p * (1 - p) + z * z / (4 * n)) / n"
    by (simp only: power2_abs)
  then show ?thesis by (rule real_le_rsqrt)
qed

lemma wilson_interval_contains:
  fixes z p n :: real
  assumes "0 \<le> p" "p \<le> 1" "0 < n" "0 \<le> z"
  defines "d \<equiv> 1 + z * z / n"
  defines "s \<equiv> sqrt ((p * (1 - p) + z * z / (4 * n)) / n)"
  shows "(p + z * z / (2 * n)) / d - z * s / d \<le> p"
    and "p \<le> (p + z * z / (2 * n)) / d + z * s / d"
proof -
  have d: "0 < d" unfolding d_def using assms(3)
    by (intro add_pos_nonneg divide_nonneg_nonneg) simp_all
  have b: "\<bar>z * (1 / 2 - p) / n\<bar> \<le> s"
    unfolding s_def by (rule wilson_margin_bound [OF assms(1-3)])
  have pd: "p * d = p + z * (z * p / n)" unfolding d_def by (simp add: algebra_simps)
  have half: "z * z / (2 * n) = z * (z * (1 / 2) / n)" by simp
  have lo: "z * (z * (1 / 2 - p) / n) \<le> z * s"
  proof -
    have "z * (1 / 2 - p) / n \<le> s" by (rule order_trans [OF abs_ge_self b])
    then show ?thesis using assms(4) by (rule mult_left_mono)
  qed
  have hi: "z * (z * (p - 1 / 2) / n) \<le> z * s"
  proof -
    have "z * (p - 1 / 2) / n = - (z * (1 / 2 - p) / n)"
      by (simp add: algebra_simps diff_divide_distrib)
    also have "\<dots> \<le> \<bar>z * (1 / 2 - p) / n\<bar>" by (rule abs_ge_minus_self)
    finally have "z * (p - 1 / 2) / n \<le> s" using b by (rule order_trans)
    then show ?thesis using assms(4) by (rule mult_left_mono)
  qed
  have e1: "z * (z * (1 / 2 - p) / n) = z * z / (2 * n) - z * (z * p / n)"
    by (simp add: algebra_simps diff_divide_distrib)
  have e2: "z * (z * (p - 1 / 2) / n) = z * (z * p / n) - z * z / (2 * n)"
    by (simp add: algebra_simps diff_divide_distrib)
  have "p + z * z / (2 * n) - z * s \<le> p * d"
    using lo unfolding e1 pd by linarith
  then have "(p + z * z / (2 * n) - z * s) / d \<le> p"
    using d by (simp add: pos_divide_le_eq)
  then show "(p + z * z / (2 * n)) / d - z * s / d \<le> p"
    by (simp only: diff_divide_distrib)
  have "p * d \<le> p + z * z / (2 * n) + z * s"
    using hi unfolding e2 pd by linarith
  then have "p \<le> (p + z * z / (2 * n) + z * s) / d"
    using d by (simp add: pos_le_divide_eq)
  then show "p \<le> (p + z * z / (2 * n)) / d + z * s / d"
    by (simp only: add_divide_distrib)
qed

lemma wilson_ci_contains_estimate:
  assumes "0 \<le> x" "x \<le> n" "0 \<le> ppf ((1 + c) / 2)"
  shows "\<exists>lo hi. wilson_ci ppf c x n = Inr (lo, hi)
           \<and> lo \<le> (if n > 0 then real_of_int x / real_of_int n else 0)
           \<and> (if n > 0 then real_of_int x / real_of_int n else 0) \<le> hi"
proof (cases "n = 0")
  case True
  then show ?thesis by simp
next
  case False
  with assms have n: "0 < n" by simp
  let ?p = "real_of_int x / real_of_int n"
  have p: "0 \<le> ?p" "?p \<le> 1" using assms n by simp_all
  have rn: "0 < real_of_int n" using n by simp
  note c = wilson_interval_contains [OF p rn assms(3)]
  show ?thesis
    unfolding wilson_ci_eq [OF assms(1,2) n] Let_def
    using n p c by (simp add: max_def min_def)
qed

text \<open>
  In exact arithmetic every interval of the result contains its point estimate when the
  quantile is non-negative. This is a fact about the formulas: the doubles that the
  program computes are rounded, and at a proportion of \<open>0\<close> or \<open>1\<close> the rounded
  \<open>center - margin\<close> or \<open>center + margin\<close> can miss the estimate by one unit in the
  last place.
\<close>

lemma metric_contains_exact:
  assumes "0 \<le> x" "x \<le> n" "0 \<le> ppf ((1 + c) / 2)"
    and "wilson_ci ppf c x n = Inr (lo, hi)"
  shows "lo \<le> (if n > 0 then real_of_int x / real_of_int n else 0)"
    and "(if n > 0 then real_of_int x / real_of_int n else 0) \<le> hi"
  using wilson_ci_contains_estimate [of x n ppf c] assms by auto

lemma diagnostic_stats_intervals_contain_exact:
  assumes "0 \<le> tp" "0 \<le> fp" "0 \<le> tn" "0 \<le> fn" "0 < tp + fp + tn + fn"
    and "0 \<le> ppf ((1 + c) / 2)"
  shows "\<exists>r. calculate_diagnostic_stats ppf tp fp tn fn c = Inr r
    \<and> m_ci_lower (sensitivity r) \<le> m_value (sensitivity r)
    \<and> m_value (sensitivity r) \<le> m_ci_upper (sensitivity r)
    \<and> m_ci_lower (specificity r) \<le> m_value (specificity r)
    \<and> m_value (specificity r) \<le> m_ci_upper (specificity r)
    \<and> m_ci_lower (ppv r) \<le> m_value (ppv r) \<and> m_value (ppv r) \<le> m_ci_upper (ppv r)
    \<and> m_ci_lower (npv r) \<le> m_value (npv r) \<and> m_value (npv r) \<le> m_ci_upper (npv r)
    \<and> m_ci_lower (accuracy r) \<le> m_value (accuracy r)
    \<and> m_value (accuracy r) \<le> m_ci_upper (accuracy r)"
proof -
  obtain r where r: "calculate_diagnostic_stats ppf tp fp tn fn c = Inr r"
    using calculate_diagnostic_stats_returns [OF assms(1-5)] by blast
  note v = calculate_diagnostic_stats_values [OF r]
  note i = calculate_diagnostic_stats_intervals [OF r]
  have se: "m_ci_lower (sensitivity r) \<le> m_value (sensitivity r)"
      "m_value (sensitivity r) \<le> m_ci_upper (sensitivity r)"
    unfolding v(1) using metric_contains_exact [where ppf = ppf and c = c, OF _ _ assms(6) i(1)] assms by simp_all
  have sp: "m_ci_lower (specificity r) \<le> m_value (specificity r)"
      "m_value (specificity r) \<le> m_ci_upper (specificity r)"
    unfolding v(2) using metric_contains_exact [where ppf = ppf and c = c, OF _ _ assms(6) i(2)] assms by simp_all
  have pp: "m_ci_lower (ppv r) \<le> m_value (ppv r)" "m_value (ppv r) \<le> m_ci_upper (ppv r)"
    unfolding v(3) using metric_contains_exact [where ppf = ppf and c = c, OF _ _ assms(6) i(3)] assms by simp_all
  have np: "m_ci_lower (npv r) \<le> m_value (npv r)" "m_value (npv r) \<le> m_ci_upper (npv r)"
    unfolding v(4) using metric_contains_exact [where ppf = ppf and c = c, OF _ _ assms(6) i(4)] assms by simp_all
  have ac: "m_ci_lower (accuracy r) \<le> m_value (accuracy r)"
      "m_value (accuracy r) \<le> m_ci_upper (accuracy r)"
    unfolding v(5) using metric_contains_exact [where ppf = ppf and c = c, OF _ _ assms(6) i(5)] assms by simp_all
  from r se sp pp np ac show ?thesis by blast
qed

subsection \<open>Matrices\<close>

lemma sum_list_upt: "sum_list (map f [0..<k]) = sum f {0..<k}"
  by (simp add: interv_sum_list_conv_sum_set_nat)

lemma length_matrix_of [simp]: "length (matrix_of k f) = k"
  by (simp add: matrix_of_def)

lemma matrix_of_nth [simp]: "i < k \<Longrightarrow> j < k \<Longrightarrow> matrix_of k f ! i ! j = f i j"
  by (simp add: matrix_of_def)

lemma matrix_of_cong:
  assumes "\<And>i j. i < k \<Longrightarrow> j < k \<Longrightarrow> f i j = g i j"
  shows "matrix_of k f = matrix_of k g"
  using assms by (simp add: matrix_of_def)

lemma trace_of_matrix: "trace_of (matrix_of k f) = (\<Sum>i = 0..<k. f i i)"
proof -
  have "map (\<lambda>i. matrix_of k f ! i ! i) [0..<k] = map (\<lambda>i. f i i) [0..<k]"
    by simp
  then show ?thesis
    by (simp add: trace_of_def sum_list_upt)
qed

lemma row_sums_matrix: "row_sums (matrix_of k f) = map (\<lambda>i. \<Sum>j = 0..<k. f i j) [0..<k]"
  by (simp add: row_sums_def matrix_of_def comp_def sum_list_upt)

lemma col_sums_matrix: "col_sums (matrix_of k f) = map (\<lambda>j. \<Sum>i = 0..<k. f i j) [0..<k]"
proof -
  have "sum_list (map (\<lambda>row. row ! j) (matrix_of k f)) = (\<Sum>i = 0..<k. f i j)"
    if "j < k" for j
  proof -
    have "map (\<lambda>row. row ! j) (matrix_of k f) = map (\<lambda>i. f i j) [0..<k]"
      using that by (simp add: matrix_of_def)
    then show ?thesis by (simp add: sum_list_upt)
  qed
  then show ?thesis by (simp add: col_sums_def)
qed

lemma total_of_matrix: "total_of (matrix_of k f) = (\<Sum>i = 0..<k. \<Sum>j = 0..<k. f i j)"
  by (simp add: total_of_def matrix_of_def comp_def sum_list_upt)

lemma sum_list_map2_upt:
  "sum_list (map2 (*) (map f [0..<k]) (map g [0..<k])) = (\<Sum>i = 0..<k. f i * g i :: real)"
proof -
  have "map2 (*) (map f [0..<k]) (map g [0..<k]) = map (\<lambda>i. f i * g i) [0..<k]"
    by (simp add: zip_map_map map_zip_map zip_same_conv_map)
  then show ?thesis by (simp add: sum_list_upt)
qed

subsection \<open>The contingency table\<close>

lemma cell_commute: "cell r2 r1 x y = cell r1 r2 y x"
proof -
  have "zip r2 r1 = map (\<lambda>(a, b). (b, a)) (zip r1 r2)"
    by (rule zip_commute)
  then show ?thesis
    by (simp add: cell_def filter_map comp_def case_prod_unfold conj_commute)
qed

lemma categories_of_commute: "categories_of r2 r1 = categories_of r1 r2"
  unfolding categories_of_def sorted_list_of_set_sort_remdups [symmetric]
  by (simp add: Un_commute)

lemma entry_commute: "entry r2 r1 i j = entry r1 r2 j i"
  by (simp add: entry_def categories_of_commute [of r2 r1] cell_commute [of r2 r1])

lemma contingency_of_entry:
  "contingency_of (categories_of r1 r2) r1 r2
     = matrix_of (length (categories_of r1 r2)) (entry r1 r2)"
  by (simp add: contingency_of_def entry_def [abs_def])

lemma entry_nonneg: "0 \<le> entry r1 r2 i j"
  by (simp add: entry_def)

text \<open>Observed and expected agreement as the function computes them.\<close>

lemma observed_eq:
  "trace_of (contingency_of (categories_of r1 r2) r1 r2)
     = (\<Sum>i = 0..<length (categories_of r1 r2). entry r1 r2 i i)"
  by (simp only: contingency_of_entry trace_of_matrix)

lemma expected_eq:
  "sum_list (map2 (*)
      (map (\<lambda>s. s / n) (row_sums (contingency_of (categories_of r1 r2) r1 r2)))
      (map (\<lambda>s. s / n) (col_sums (contingency_of (categories_of r1 r2) r1 r2))))
   = (\<Sum>i = 0..<length (categories_of r1 r2).
        (\<Sum>j = 0..<length (categories_of r1 r2). entry r1 r2 i j) / n
        * ((\<Sum>j = 0..<length (categories_of r1 r2). entry r1 r2 j i) / n))"
  by (simp only: contingency_of_entry row_sums_matrix col_sums_matrix map_map comp_def
        sum_list_map2_upt)

lemma expected_nonneg:
  assumes "0 \<le> (n::real)"
  shows "0 \<le> sum_list (map2 (*)
      (map (\<lambda>s. s / n) (row_sums (contingency_of (categories_of r1 r2) r1 r2)))
      (map (\<lambda>s. s / n) (col_sums (contingency_of (categories_of r1 r2) r1 r2))))"
  unfolding expected_eq
  using assms
  by (intro sum_nonneg mult_nonneg_nonneg divide_nonneg_nonneg) (simp_all add: entry_nonneg)

lemma observed_commute:
  "trace_of (contingency_of (categories_of r2 r1) r2 r1)
     = trace_of (contingency_of (categories_of r1 r2) r1 r2)"
proof -
  have "trace_of (contingency_of (categories_of r2 r1) r2 r1)
          = (\<Sum>i = 0..<length (categories_of r2 r1). entry r2 r1 i i)"
    by (rule observed_eq)
  also have "\<dots> = (\<Sum>i = 0..<length (categories_of r1 r2). entry r1 r2 i i)"
    by (simp only: categories_of_commute [of r2 r1] entry_commute [of r2 r1])
  also have "\<dots> = trace_of (contingency_of (categories_of r1 r2) r1 r2)"
    by (rule observed_eq [symmetric])
  finally show ?thesis .
qed

lemma expected_commute:
  "sum_list (map2 (*)
      (map (\<lambda>s. s / n) (row_sums (contingency_of (categories_of r2 r1) r2 r1)))
      (map (\<lambda>s. s / n) (col_sums (contingency_of (categories_of r2 r1) r2 r1))))
   = sum_list (map2 (*)
      (map (\<lambda>s. s / n) (row_sums (contingency_of (categories_of r1 r2) r1 r2)))
      (map (\<lambda>s. s / n) (col_sums (contingency_of (categories_of r1 r2) r1 r2))))"
  (is "?l = ?r")
proof -
  let ?k = "length (categories_of r1 r2)"
  have "?l = (\<Sum>i = 0..<length (categories_of r2 r1).
        (\<Sum>j = 0..<length (categories_of r2 r1). entry r2 r1 i j) / n
        * ((\<Sum>j = 0..<length (categories_of r2 r1). entry r2 r1 j i) / n))"
    by (rule expected_eq)
  also have "\<dots> = (\<Sum>i = 0..<?k.
        (\<Sum>j = 0..<?k. entry r1 r2 j i) / n * ((\<Sum>j = 0..<?k. entry r1 r2 i j) / n))"
    by (simp only: categories_of_commute [of r2 r1] entry_commute [of r2 r1])
  also have "\<dots> = (\<Sum>i = 0..<?k.
        (\<Sum>j = 0..<?k. entry r1 r2 i j) / n * ((\<Sum>j = 0..<?k. entry r1 r2 j i) / n))"
    by (rule sum.cong) (simp_all only: mult.commute)
  also have "\<dots> = ?r"
    by (rule expected_eq [symmetric])
  finally show ?thesis .
qed

subsection \<open>The library kappa\<close>

lemma weight_commute: "weight j i = weight i j"
  by (simp add: weight_def)

lemma total_of_matrix_cong:
  assumes "\<And>i j. i < k \<Longrightarrow> j < k \<Longrightarrow> f i j = g i j"
  shows "total_of (matrix_of k f) = (\<Sum>i = 0..<k. \<Sum>j = 0..<k. g i j)"
  using matrix_of_cong [of k f g] assms by (simp add: total_of_matrix)

lemma cohen_kappa_score_eq:
  "cohen_kappa_score y1 y2 =
    (let k = length (categories_of y1 y2);
         total = (\<Sum>i = 0..<k. \<Sum>j = 0..<k. entry y1 y2 j i)
     in one_minus (np_div
          (\<Sum>i = 0..<k. \<Sum>j = 0..<k. weight i j * entry y1 y2 i j)
          (\<Sum>i = 0..<k. \<Sum>j = 0..<k.
              weight i j * ((\<Sum>i' = 0..<k. entry y1 y2 i' i) * (\<Sum>j' = 0..<k. entry y1 y2 j j') / total))))"
proof -
  let ?k = "length (categories_of y1 y2)"
  let ?c = "\<lambda>i. \<Sum>i' = 0..<?k. entry y1 y2 i' i"
  let ?r = "\<lambda>j. \<Sum>j' = 0..<?k. entry y1 y2 j j'"
  let ?total = "\<Sum>i = 0..<?k. ?c i"
  have tot: "sum_list (map ?c [0..<?k]) = ?total"
    by (rule sum_list_upt)
  have w: "total_of (matrix_of ?k (\<lambda>i j. matrix_of ?k (\<lambda>i j. if i = j then 0 else 1) ! i ! j
                * matrix_of ?k (entry y1 y2) ! i ! j))
           = (\<Sum>i = 0..<?k. \<Sum>j = 0..<?k. weight i j * entry y1 y2 i j)"
    by (rule total_of_matrix_cong) (simp add: weight_def)
  have e: "total_of (matrix_of ?k (\<lambda>i j. matrix_of ?k (\<lambda>i j. if i = j then 0 else 1) ! i ! j
                * matrix_of ?k (\<lambda>i j. map ?c [0..<?k] ! i * map ?r [0..<?k] ! j / ?total) ! i ! j))
           = (\<Sum>i = 0..<?k. \<Sum>j = 0..<?k. weight i j * (?c i * ?r j / ?total))"
    by (rule total_of_matrix_cong) (simp add: weight_def)
  show ?thesis
    unfolding cohen_kappa_score_def Let_def contingency_of_entry length_matrix_of
      row_sums_matrix col_sums_matrix tot
    by (simp only: w e)
qed

lemma weighted_sum_swap:
  "(\<Sum>i = 0..<k. \<Sum>j = 0..<k. weight i j * g j i)
     = (\<Sum>i = 0..<k. \<Sum>j = 0..<(k::nat). weight i j * (g i j :: real))"
proof -
  have "(\<Sum>i = 0..<k. \<Sum>j = 0..<k. weight i j * g j i)
          = (\<Sum>j = 0..<k. \<Sum>i = 0..<k. weight i j * g j i)"
    by (rule sum.swap)
  also have "\<dots> = (\<Sum>j = 0..<k. \<Sum>i = 0..<k. weight j i * g j i)"
    by (simp only: weight_commute [of _ "_::nat"] cong: sum.cong)
  finally show ?thesis .
qed

lemma cohen_kappa_score_commute: "cohen_kappa_score y2 y1 = cohen_kappa_score y1 y2"
proof -
  let ?k = "length (categories_of y1 y2)"
  let ?f = "entry y1 y2"
  let ?R = "\<lambda>i. \<Sum>i' = 0..<?k. ?f i i'"
  let ?C = "\<lambda>j. \<Sum>j' = 0..<?k. ?f j' j"
  have num: "(\<Sum>i = 0..<?k. \<Sum>j = 0..<?k. weight i j * ?f j i)
           = (\<Sum>i = 0..<?k. \<Sum>j = 0..<?k. weight i j * ?f i j)"
    by (rule weighted_sum_swap)
  have tot: "(\<Sum>i = 0..<?k. \<Sum>j = 0..<?k. ?f i j) = (\<Sum>i = 0..<?k. \<Sum>j = 0..<?k. ?f j i)"
    by (rule sum.swap)
  have c: "?R i * ?C j / t = ?C j * ?R i / t" for i j t
    by (simp only: mult.commute)
  have den: "(\<Sum>i = 0..<?k. \<Sum>j = 0..<?k. weight i j * (?R i * ?C j / t))
           = (\<Sum>i = 0..<?k. \<Sum>j = 0..<?k. weight i j * (?C i * ?R j / t))" for t
  proof -
    have "(\<Sum>i = 0..<?k. \<Sum>j = 0..<?k. weight i j * (?R i * ?C j / t))
            = (\<Sum>i = 0..<?k. \<Sum>j = 0..<?k. weight i j * (?C j * ?R i / t))"
      by (simp only: c)
    also have "\<dots> = (\<Sum>i = 0..<?k. \<Sum>j = 0..<?k. weight i j * (?C i * ?R j / t))"
      by (rule weighted_sum_swap [where k = ?k and g = "\<lambda>i j. ?C i * ?R j / t"])
    finally show ?thesis .
  qed
  have "cohen_kappa_score y2 y1 =
      one_minus (np_div
          (\<Sum>i = 0..<?k. \<Sum>j = 0..<?k. weight i j * ?f j i)
          (\<Sum>i = 0..<?k. \<Sum>j = 0..<?k.
              weight i j * (?R i * ?C j / (\<Sum>i = 0..<?k. \<Sum>j = 0..<?k. ?f i j))))"
    unfolding cohen_kappa_score_eq [of y2 y1] Let_def
      categories_of_commute [of y2 y1] entry_commute [of y2 y1]
    by (rule refl)
  also have "\<dots> =
      one_minus (np_div
          (\<Sum>i = 0..<?k. \<Sum>j = 0..<?k. weight i j * ?f i j)
          (\<Sum>i = 0..<?k. \<Sum>j = 0..<?k.
              weight i j * (?C i * ?R j / (\<Sum>i = 0..<?k. \<Sum>j = 0..<?k. ?f j i))))"
    unfolding num den tot by (rule refl)
  also have "\<dots> = cohen_kappa_score y1 y2"
    unfolding cohen_kappa_score_eq [of y1 y2] Let_def by (rule refl)
  finally show ?thesis .
qed

subsection \<open>The agreement estimator\<close>

lemma calculate_cohens_kappa_returns:
  assumes "length A = length B" "A \<noteq> []"
  defines "n \<equiv> real (length A)"
  defines "p_exp \<equiv> sum_list (map2 (*)
      (map (\<lambda>s. s / n) (row_sums (contingency_of (categories_of A B) A B)))
      (map (\<lambda>s. s / n) (col_sums (contingency_of (categories_of A B) A B))))"
  defines "se \<equiv> (if p_exp = 1 then 0 else sqrt (p_exp / (n * (1 - p_exp)\<^sup>2)))"
  shows "calculate_cohens_kappa ppf A B c =
    Inr \<lparr>kappa = cohen_kappa_score A B,
         confidence_interval =
           \<lparr>lower = pf_sub (cohen_kappa_score A B) (ppf ((1 + c) / 2) * se),
            upper = py_min 1 (pf_add (cohen_kappa_score A B) (ppf ((1 + c) / 2) * se)),
            ci_confidence_level = c\<rparr>,
         standard_error = se,
         kr_interpretation = interpret_kappa (cohen_kappa_score A B),
         kr_sample_size = length A,
         observed_agreement = trace_of (contingency_of (categories_of A B) A B) / n,
         expected_agreement = p_exp\<rparr>"
proof -
  have n: "0 \<le> n" by (simp add: n_def)
  have e: "0 \<le> p_exp" unfolding p_exp_def by (rule expected_nonneg [OF n])
  have "0 \<le> p_exp / (n * (1 - p_exp)\<^sup>2)"
    using n e by (intro divide_nonneg_nonneg mult_nonneg_nonneg) simp_all
  then have sq: "(if p_exp = 1 then Inr 0 else py_sqrt (p_exp / (n * (1 - p_exp)\<^sup>2))) = Inr se"
    by (simp add: se_def)
  have len: "length A \<noteq> 0" using assms(2) by simp
  show ?thesis
    unfolding calculate_cohens_kappa_def Let_def
    unfolding n_def [symmetric] p_exp_def [symmetric]
    using assms(1) len by (simp add: sq)
qed

lemma calculate_cohens_kappa_commute:
  "calculate_cohens_kappa ppf B A c = calculate_cohens_kappa ppf A B c"
proof (cases "length A = length B \<and> A \<noteq> []")
  case True
  then have l: "length B = length A" and ne: "A \<noteq> []" "B \<noteq> []" by auto
  show ?thesis
    unfolding calculate_cohens_kappa_returns [OF l ne(2)]
      calculate_cohens_kappa_returns [OF l [symmetric] ne(1)]
    by (simp only: l cohen_kappa_score_commute [of B A] observed_commute [of B A]
          expected_commute [of _ B A])
next
  case False
  then show ?thesis
    by (auto simp: calculate_cohens_kappa_def)
qed

subsection \<open>Constant identical sequences\<close>





subsection \<open>The sequences \<open>[0, 1]\<close> and \<open>[1, 0]\<close>\<close>

lemma categories_of_01: "categories_of [0, 1] [1, 0 :: int] = [0, 1]"
  by (simp add: categories_of_def)

lemma entry_01:
  "entry [0, 1] [1, 0 :: int] 0 0 = 0"
  "entry [0, 1] [1, 0 :: int] 0 (Suc 0) = 1"
  "entry [0, 1] [1, 0 :: int] (Suc 0) 0 = 1"
  "entry [0, 1] [1, 0 :: int] (Suc 0) (Suc 0) = 0"
  by (simp_all add: entry_def categories_of_01 cell_def)

lemma cohen_kappa_score_01: "cohen_kappa_score [0, 1] [1, 0 :: int] = Fin (- 1)"
  by (simp add: cohen_kappa_score_eq categories_of_01 Let_def numeral_2_eq_2 weight_def
        entry_01 np_div_def)

lemma expected_01:
  "sum_list (map2 (*)
      (map (\<lambda>s. s / 2) (row_sums (contingency_of (categories_of [0, 1] [1, 0 :: int]) [0, 1] [1, 0])))
      (map (\<lambda>s. s / 2) (col_sums (contingency_of (categories_of [0, 1] [1, 0 :: int]) [0, 1] [1, 0]))))
   = 1 / 2"
  unfolding expected_eq
  by (simp add: categories_of_01 numeral_2_eq_2 entry_01)

lemma calculate_cohens_kappa_01:
  "\<exists>r. calculate_cohens_kappa ppf [0, 1] [1, 0 :: int] c = Inr r
     \<and> kappa r = Fin (- 1) \<and> standard_error r = 1
     \<and> lower (confidence_interval r) = Fin (- 1 - ppf ((1 + c) / 2))"
proof -
  have l: "length [0, 1 :: int] = length [1, 0 :: int]" by simp
  have ne: "[0, 1 :: int] \<noteq> []" by simp
  have two: "real (length [0, 1 :: int]) = 2" by simp
  show ?thesis
    unfolding calculate_cohens_kappa_returns [OF l ne] two expected_01 cohen_kappa_score_01
    by (simp add: pf_sub_def power2_eq_square)
qed

lemma py_min_capped:
  "(case py_min 1 x of Fin u \<Rightarrow> u \<le> 1 | PInf \<Rightarrow> False | NInf \<Rightarrow> True | NaN \<Rightarrow> False)"
  by (cases x) (simp_all add: py_min_def)

subsection \<open>The comparator\<close>

lemma proportional_arrays_length:
  assumes "proportional_arrays e1 e2 = Inr (r1, r2)"
  shows "length r1 = length r2"
  using assms by (auto simp: proportional_arrays_def Let_def split: if_splits)

lemma pair_entry_returns:
  assumes "\<exists>r1 r2. proportional_arrays e1 e2 = Inr (r1, r2) \<and> r1 \<noteq> []"
  shows "\<exists>p. pair_entry ppf e1 e2 = Inr p"
proof -
  from assms obtain r1 r2 where r: "proportional_arrays e1 e2 = Inr (r1, r2)" "r1 \<noteq> []"
    by blast
  have l: "length r1 = length r2" by (rule proportional_arrays_length [OF r(1)])
  show ?thesis
    unfolding pair_entry_def r(1) bind_r_Inr prod.case
      calculate_cohens_kappa_returns [OF l r(2)]
    by simp
qed

lemma pairwise_kappa_three:
  assumes "pair_entry ppf e1 e2 = Inr p12" "pair_entry ppf e1 e3 = Inr p13"
    "pair_entry ppf e2 e3 = Inr p23"
  shows "pairwise_kappa ppf [e1, e2, e3] =
    Inr (AList.update (comparison_key e2 e3) p23
          (AList.update (comparison_key e1 e3) p13
            (AList.update (comparison_key e1 e2) p12 [])))"
  by (simp add: pairwise_kappa_def assms)

lemma synthesis_examples:
  "proportional_arrays same_1 exp_c = Inr ([1, 0], [1, 0])"
  "proportional_arrays same_1 exp_d = Inr ([1, 0], [1, 0])"
  "proportional_arrays exp_c exp_d = Inr ([1, 1, 0, 0], [1, 1, 0, 0])"
  "proportional_arrays same_1 same_2 = Inr ([1, 0], [1, 0])"
  "proportional_arrays same_1 same_3 = Inr ([1, 0], [1, 0])"
  "proportional_arrays same_2 same_3 = Inr ([1, 1, 0, 0], [1, 1, 0, 0])"
  by (simp_all add: proportional_arrays_def stratum_def py_int_def same_1_def same_2_def
        same_3_def exp_c_def exp_d_def numeral_2_eq_2)

section \<open>The claims\<close>



text \<open>
  \<^bold>\<open>C1.\<close> The claim says that every call with a negative count fails with the
  validation error. The only validation of \<^verbatim>\<open>calculate_diagnostic_stats\<close> is the test
  of the sum against zero: with \<open>tp = 1\<close>, \<open>fp = -1\<close>, \<open>tn = 1\<close>, \<open>fn = 1\<close> the sum
  is \<open>2\<close>, no exception is raised, and the call returns a record with sample size
  \<open>2\<close> and accuracy \<open>1\<close>.
\<close>

theorem negative_count_accepted:
  "\<exists>r. calculate_diagnostic_stats ppf 1 (- 1) 1 1 confidence = Inr r
       \<and> sample_size r = 2 \<and> m_value (accuracy r) = 1 \<and> m_value (sensitivity r) = 1 / 2"
proof -
  obtain c1 where c1: "wilson_ci ppf confidence 1 2 = Inr c1"
    using wilson_ci_returns [of 1 2 ppf confidence] by auto
  obtain c5 where c5: "wilson_ci ppf confidence 2 2 = Inr c5"
    using wilson_ci_returns [of 2 2 ppf confidence] by auto
  have k: "\<exists>k. kappa_proxy ppf 1 (- 1) 1 1 confidence = Inr k"
    by (simp add: kappa_proxy_def Let_def)
  then obtain k where k: "kappa_proxy ppf 1 (- 1) 1 1 confidence = Inr k" ..
  have "\<exists>r. calculate_diagnostic_stats ppf 1 (- 1) 1 1 confidence = Inr r"
    using c1 c5 k by (simp add: calculate_diagnostic_stats_def Let_def)
  then obtain r where r: "calculate_diagnostic_stats ppf 1 (- 1) 1 1 confidence = Inr r" ..
  have "sample_size r = 2"
    using calculate_diagnostic_stats_sample_size [OF r] by simp
  moreover have "m_value (accuracy r) = 1"
    using calculate_diagnostic_stats_values(5) [OF r] by simp
  moreover have "m_value (sensitivity r) = 1 / 2"
    using calculate_diagnostic_stats_values(1) [OF r] by simp
  ultimately show ?thesis using r by blast
qed

text \<open>
  \<^bold>\<open>C3.\<close> The claim says that an unknown correction method is detected at the start
  of the call and reported as the validation error. The method is not checked: for
  \<^verbatim>\<open>'hochberg'\<close> no branch assigns \<^verbatim>\<open>corrected\<close>, and the call fails on reading the
  unbound local while it builds its result.
\<close>

theorem unknown_method_unbound:
  "calculate_multiple_comparisons_correction [1 / 100, 2 / 100, 3 / 100] ''hochberg''
     = Inl (UnboundLocalError ''corrected'')"
  by (simp add: calculate_multiple_comparisons_correction_def)

text \<open>
  \<^bold>\<open>C9.\<close> Under \<^verbatim>\<open>'bonferroni'\<close> the call returns, the corrected list is the input
  list mapped by \<open>p \<mapsto> min 1 (p \<times> n)\<close> with \<open>n\<close> the number of p-values (so order and
  length are those of the input), and \<open>[0.01, 0.02, 0.03]\<close> gives \<open>[0.03, 0.06, 0.09]\<close>.
\<close>

theorem bonferroni_correction:
  "(\<exists>r. calculate_multiple_comparisons_correction p_values ''bonferroni'' = Inr r
        \<and> corrected_p_values r = map (\<lambda>p. min 1 (p * real (length p_values))) p_values
        \<and> length (corrected_p_values r) = length p_values
        \<and> original_p_values r = p_values)
   \<and> (\<exists>r. calculate_multiple_comparisons_correction [1 / 100, 2 / 100, 3 / 100] ''bonferroni'' = Inr r
        \<and> corrected_p_values r = [3 / 100, 6 / 100, 9 / 100])"
proof
  show "\<exists>r. calculate_multiple_comparisons_correction p_values ''bonferroni'' = Inr r
        \<and> corrected_p_values r = map (\<lambda>p. min 1 (p * real (length p_values))) p_values
        \<and> length (corrected_p_values r) = length p_values
        \<and> original_p_values r = p_values"
    by (simp add: calculate_multiple_comparisons_correction_def Let_def comp_def min.commute)
  show "\<exists>r. calculate_multiple_comparisons_correction [1 / 100, 2 / 100, 3 / 100] ''bonferroni'' = Inr r
        \<and> corrected_p_values r = [3 / 100, 6 / 100, 9 / 100]"
    by (simp add: calculate_multiple_comparisons_correction_def Let_def)
qed

text \<open>
  \<^bold>\<open>C10.\<close> The experiments \<open>exp_a\<close> (all counts \<open>1\<close>, total \<open>4\<close>) and \<open>exp_b\<close>
  (total \<open>1\<close>) both have a positive total, every stratum
  \<open>int(count / 4 \<times> 1)\<close> is \<open>0\<close>, both synthesized sequences are empty, and the
  comparison of the pair raises \<^verbatim>\<open>ValueError("Rater arrays cannot be empty")\<close>; the
  route answers with its error redirect and no kappa table.
\<close>

theorem empty_synthesis_fails:
  "0 < true_positive exp_a + false_positive exp_a + true_negative exp_a + false_negative exp_a
   \<and> 0 < true_positive exp_b + false_positive exp_b + true_negative exp_b + false_negative exp_b
   \<and> proportional_arrays exp_a exp_b = Inr ([], [])
   \<and> pair_entry ppf exp_a exp_b = Inl (ValueError ''Rater arrays cannot be empty'')
   \<and> pairwise_kappa ppf [exp_a, exp_b] = Inl (ValueError ''Rater arrays cannot be empty'')
   \<and> compare_techniques ppf [exp_a, exp_b] = Redirect ''Error performing technique comparison''"
proof -
  have s: "proportional_arrays exp_a exp_b = Inr ([], [])"
    by (simp add: proportional_arrays_def exp_a_def exp_b_def stratum_def py_int_def)
  have p: "pair_entry ppf exp_a exp_b = Inl (ValueError ''Rater arrays cannot be empty'')"
    by (simp add: pair_entry_def s calculate_cohens_kappa_empty)
  have t: "pairwise_kappa ppf [exp_a, exp_b] = Inl (ValueError ''Rater arrays cannot be empty'')"
    by (simp add: pairwise_kappa_def p)
  have c: "compare_techniques ppf [exp_a, exp_b] = Redirect ''Error performing technique comparison''"
    by (simp add: compare_techniques_def t)
  show ?thesis using s p t c by (simp add: exp_a_def exp_b_def)
qed

text \<open>
  \<^bold>\<open>C4.\<close> As amended: for three experiments whose pairwise proportional syntheses are
  all non-empty and whose three keys \<open>name\<^sub>i vs name\<^sub>j\<close> are pairwise distinct, the
  comparison renders a table of exactly three entries, in the order \<open>(1, 2)\<close>,
  \<open>(1, 3)\<close>, \<open>(2, 3)\<close>, each under the key of its pair and holding the entry that
  the estimator returns for that pair. The claim as stated fails without either
  condition: names are not unique, so keys collide and later entries overwrite earlier
  ones; and an empty synthesis raises, so no table is rendered.
\<close>

theorem three_experiments_table:
  assumes "\<exists>r1 r2. proportional_arrays e1 e2 = Inr (r1, r2) \<and> r1 \<noteq> []"
    and "\<exists>r1 r2. proportional_arrays e1 e3 = Inr (r1, r2) \<and> r1 \<noteq> []"
    and "\<exists>r1 r2. proportional_arrays e2 e3 = Inr (r1, r2) \<and> r1 \<noteq> []"
    and "distinct [comparison_key e1 e2, comparison_key e1 e3, comparison_key e2 e3]"
  shows "\<exists>p12 p13 p23.
      pair_entry ppf e1 e2 = Inr p12 \<and> pair_entry ppf e1 e3 = Inr p13
      \<and> pair_entry ppf e2 e3 = Inr p23
      \<and> compare_techniques ppf [e1, e2, e3] =
          Rendered [(comparison_key e1 e2, p12), (comparison_key e1 e3, p13),
                    (comparison_key e2 e3, p23)]"
proof -
  obtain p12 where p12: "pair_entry ppf e1 e2 = Inr p12"
    using pair_entry_returns [OF assms(1)] by blast
  obtain p13 where p13: "pair_entry ppf e1 e3 = Inr p13"
    using pair_entry_returns [OF assms(2)] by blast
  obtain p23 where p23: "pair_entry ppf e2 e3 = Inr p23"
    using pair_entry_returns [OF assms(3)] by blast
  have "compare_techniques ppf [e1, e2, e3] =
          Rendered [(comparison_key e1 e2, p12), (comparison_key e1 e3, p13),
                    (comparison_key e2 e3, p23)]"
    using assms(4)
    by (simp add: compare_techniques_def pairwise_kappa_three [OF p12 p13 p23])
  with p12 p13 p23 show ?thesis by blast
qed

theorem three_experiments_table_witness:
  "(\<exists>r1 r2. proportional_arrays same_1 exp_c = Inr (r1, r2) \<and> r1 \<noteq> [])
   \<and> (\<exists>r1 r2. proportional_arrays same_1 exp_d = Inr (r1, r2) \<and> r1 \<noteq> [])
   \<and> (\<exists>r1 r2. proportional_arrays exp_c exp_d = Inr (r1, r2) \<and> r1 \<noteq> [])
   \<and> distinct [comparison_key same_1 exp_c, comparison_key same_1 exp_d,
                comparison_key exp_c exp_d]
   \<and> (\<exists>p12 p13 p23.
        pair_entry flat_quantile same_1 exp_c = Inr p12
        \<and> pair_entry flat_quantile same_1 exp_d = Inr p13
        \<and> pair_entry flat_quantile exp_c exp_d = Inr p23
        \<and> compare_techniques flat_quantile [same_1, exp_c, exp_d] =
            Rendered [(''A vs C'', p12), (''A vs D'', p13), (''C vs D'', p23)])"
proof -
  have h1: "\<exists>r1 r2. proportional_arrays same_1 exp_c = Inr (r1, r2) \<and> r1 \<noteq> []"
    by (simp add: synthesis_examples)
  have h2: "\<exists>r1 r2. proportional_arrays same_1 exp_d = Inr (r1, r2) \<and> r1 \<noteq> []"
    by (simp add: synthesis_examples)
  have h3: "\<exists>r1 r2. proportional_arrays exp_c exp_d = Inr (r1, r2) \<and> r1 \<noteq> []"
    by (simp add: synthesis_examples)
  have k: "comparison_key same_1 exp_c = ''A vs C''" "comparison_key same_1 exp_d = ''A vs D''"
    "comparison_key exp_c exp_d = ''C vs D''"
    by (simp_all add: comparison_key_def same_1_def exp_c_def exp_d_def)
  have h4: "distinct [comparison_key same_1 exp_c, comparison_key same_1 exp_d,
                comparison_key exp_c exp_d]"
    by (simp add: k)
  show ?thesis
    using h1 h2 h3 h4 three_experiments_table [OF h1 h2 h3 h4, of flat_quantile]
    by (simp only: k)
qed

theorem three_experiments_counterexample:
  "rendered_keys (compare_techniques flat_quantile [same_1, same_2, same_3]) = Some [''A vs A'']
   \<and> rendered_keys (compare_techniques flat_quantile [exp_a, exp_b, exp_c]) = None"
proof -
  obtain p12 where p12: "pair_entry flat_quantile same_1 same_2 = Inr p12"
    using pair_entry_returns [of same_1 same_2] by (auto simp: synthesis_examples)
  obtain p13 where p13: "pair_entry flat_quantile same_1 same_3 = Inr p13"
    using pair_entry_returns [of same_1 same_3] by (auto simp: synthesis_examples)
  obtain p23 where p23: "pair_entry flat_quantile same_2 same_3 = Inr p23"
    using pair_entry_returns [of same_2 same_3] by (auto simp: synthesis_examples)
  have k: "comparison_key same_1 same_2 = ''A vs A''" "comparison_key same_1 same_3 = ''A vs A''"
    "comparison_key same_2 same_3 = ''A vs A''"
    by (simp_all add: comparison_key_def same_1_def same_2_def same_3_def)
  have one: "rendered_keys (compare_techniques flat_quantile [same_1, same_2, same_3])
               = Some [''A vs A'']"
    by (simp add: compare_techniques_def pairwise_kappa_three [OF p12 p13 p23] k
          rendered_keys_def)
  have "pair_entry flat_quantile exp_a exp_b = Inl (ValueError ''Rater arrays cannot be empty'')"
    by (simp add: pair_entry_def proportional_arrays_def exp_a_def exp_b_def stratum_def
          py_int_def calculate_cohens_kappa_empty)
  then have two: "rendered_keys (compare_techniques flat_quantile [exp_a, exp_b, exp_c]) = None"
    by (simp add: compare_techniques_def pairwise_kappa_def rendered_keys_def)
  from one two show ?thesis by simp
qed

text \<open>
  \<^bold>\<open>C6.\<close> For two rater sequences of equal non-zero length, the estimator returns,
  and it returns the same record for \<open>(A, B)\<close> and for \<open>(B, A)\<close>: kappa, observed and
  expected agreement, standard error, interval and interpretation all coincide.
\<close>

theorem cohens_kappa_symmetric:
  assumes "length A = length B" "A \<noteq> []"
  shows "\<exists>r. calculate_cohens_kappa ppf A B c = Inr r
           \<and> calculate_cohens_kappa ppf B A c = Inr r"
  using calculate_cohens_kappa_returns [OF assms, of ppf c]
    calculate_cohens_kappa_commute [of ppf B A c]
  by simp

theorem cohens_kappa_symmetric_witness:
  "length [0, 1 :: int] = length [1, 0 :: int] \<and> [0, 1 :: int] \<noteq> []
   \<and> (\<exists>r. calculate_cohens_kappa (\<lambda>q. 196 / 100) [0, 1] [1, 0 :: int] (95 / 100) = Inr r
         \<and> calculate_cohens_kappa (\<lambda>q. 196 / 100) [1, 0] [0, 1 :: int] (95 / 100) = Inr r)"
  using cohens_kappa_symmetric [of "[0, 1 :: int]" "[1, 0]" "\<lambda>q. 196 / 100" "95 / 100"]
  by simp

text \<open>
  \<^bold>\<open>C7.\<close> The interval of the estimator is \<open>kappa \<plusminus> z \<times> SE\<close> with \<open>z\<close> the quantile at
  \<open>(1 + confidence) / 2\<close>; the upper bound is \<^verbatim>\<open>min(1.0, \<dots>)\<close> and so never exceeds
  \<open>1\<close>; the lower bound is not capped: for \<open>[0, 1]\<close> against \<open>[1, 0]\<close> kappa is \<open>-1\<close>
  and the lower bound is below \<open>-1\<close> for every positive \<open>z\<close>. The kappa proxy of
  \<^verbatim>\<open>calculate_diagnostic_stats\<close> has both bounds in \<open>[-1, 1]\<close>.
\<close>

theorem cohens_kappa_interval:
  fixes A B :: "'a::linorder list"
  shows
  "(length A = length B \<and> A \<noteq> [] \<longrightarrow>
      (\<exists>r. calculate_cohens_kappa ppf A B c = Inr r
         \<and> lower (confidence_interval r)
             = pf_sub (kappa r) (ppf ((1 + c) / 2) * standard_error r)
         \<and> upper (confidence_interval r)
             = py_min 1 (pf_add (kappa r) (ppf ((1 + c) / 2) * standard_error r))
         \<and> (case upper (confidence_interval r) of
               Fin u \<Rightarrow> u \<le> 1 | PInf \<Rightarrow> False | NInf \<Rightarrow> True | NaN \<Rightarrow> False)))
   \<and> (0 < ppf ((1 + c) / 2) \<longrightarrow>
      (\<exists>r. calculate_cohens_kappa ppf [0, 1] [1, 0 :: int] c = Inr r
         \<and> kappa r = Fin (- 1)
         \<and> pf_less (lower (confidence_interval r)) (- 1)))
   \<and> (0 \<le> tp \<and> 0 \<le> fp \<and> 0 \<le> tn \<and> 0 \<le> fn \<and> 0 < tp + fp + tn + fn \<longrightarrow>
      (\<exists>d. calculate_diagnostic_stats ppf tp fp tn fn c = Inr d
         \<and> - 1 \<le> k_ci_lower (cohens_kappa d) \<and> k_ci_upper (cohens_kappa d) \<le> 1))"
proof (intro conjI impI)
  assume "length A = length B \<and> A \<noteq> []"
  then have a: "length A = length B" "A \<noteq> []" by simp_all
  show "\<exists>r. calculate_cohens_kappa ppf A B c = Inr r
         \<and> lower (confidence_interval r)
             = pf_sub (kappa r) (ppf ((1 + c) / 2) * standard_error r)
         \<and> upper (confidence_interval r)
             = py_min 1 (pf_add (kappa r) (ppf ((1 + c) / 2) * standard_error r))
         \<and> (case upper (confidence_interval r) of
               Fin u \<Rightarrow> u \<le> 1 | PInf \<Rightarrow> False | NInf \<Rightarrow> True | NaN \<Rightarrow> False)"
    unfolding calculate_cohens_kappa_returns [OF a]
    by (simp add: py_min_capped)
next
  assume z: "0 < ppf ((1 + c) / 2)"
  obtain r where r: "calculate_cohens_kappa ppf [0, 1] [1, 0 :: int] c = Inr r"
      "kappa r = Fin (- 1)"
      "lower (confidence_interval r) = Fin (- 1 - ppf ((1 + c) / 2))"
    using calculate_cohens_kappa_01 [of ppf c] by blast
  have "pf_less (lower (confidence_interval r)) (- 1)"
    using z by (simp add: r(3))
  with r show "\<exists>r. calculate_cohens_kappa ppf [0, 1] [1, 0 :: int] c = Inr r
         \<and> kappa r = Fin (- 1)
         \<and> pf_less (lower (confidence_interval r)) (- 1)"
    by blast
next
  assume "0 \<le> tp \<and> 0 \<le> fp \<and> 0 \<le> tn \<and> 0 \<le> fn \<and> 0 < tp + fp + tn + fn"
  then obtain d where d: "calculate_diagnostic_stats ppf tp fp tn fn c = Inr d"
    using calculate_diagnostic_stats_returns [of tp fp tn fn ppf c] by blast
  have "- 1 \<le> k_ci_lower (cohens_kappa d) \<and> k_ci_upper (cohens_kappa d) \<le> 1"
    by (rule kappa_proxy_clipped [OF calculate_diagnostic_stats_intervals(6) [OF d]])
  with d show "\<exists>d. calculate_diagnostic_stats ppf tp fp tn fn c = Inr d
         \<and> - 1 \<le> k_ci_lower (cohens_kappa d) \<and> k_ci_upper (cohens_kappa d) \<le> 1"
    by blast
qed

theorem cohens_kappa_interval_witness:
  "(length [0, 1 :: int] = length [1, 0 :: int] \<and> [0, 1 :: int] \<noteq> [])
   \<and> (0 :: real) < 196 / 100
   \<and> ((0::int) \<le> 85 \<and> (0::int) \<le> 3 \<and> (0::int) \<le> 92 \<and> (0::int) \<le> 5 \<and> (0::int) < 85 + 3 + 92 + 5)
   \<and> (\<exists>r. calculate_cohens_kappa (\<lambda>q. 196 / 100) [0, 1] [1, 0 :: int] (95 / 100) = Inr r
         \<and> lower (confidence_interval r)
             = pf_sub (kappa r) (196 / 100 * standard_error r)
         \<and> upper (confidence_interval r)
             = py_min 1 (pf_add (kappa r) (196 / 100 * standard_error r))
         \<and> kappa r = Fin (- 1)
         \<and> pf_less (lower (confidence_interval r)) (- 1))
   \<and> (\<exists>d. calculate_diagnostic_stats (\<lambda>q. 196 / 100) 85 3 92 5 (95 / 100) = Inr d
         \<and> - 1 \<le> k_ci_lower (cohens_kappa d) \<and> k_ci_upper (cohens_kappa d) \<le> 1)"
  using cohens_kappa_interval [of "[0, 1 :: int]" "[1, 0]" "\<lambda>q. 196 / 100" "95 / 100" 85 3 92 5]
  by auto



end
